theory Spec2Isabelle
  imports Main "HOL-Library.Word"
begin

section \<open>Standard-library helpers used by the service\<close>

text \<open>
  Go's \<open>filepath.Ext\<close>: scan the path from its last byte towards the front, stop at a
  path separator, and return the suffix starting at the first dot met. The scan is
  written over the reversed path; \<open>acc\<close> collects the bytes already passed.
\<close>

fun Ext_scan :: "string \<Rightarrow> string \<Rightarrow> string" where
  "Ext_scan [] acc = []"
| "Ext_scan (c # cs) acc =
     (if c = CHR ''/'' then []
      else if c = CHR ''.'' then c # acc
      else Ext_scan cs (c # acc))"

definition Ext :: "string \<Rightarrow> string" where
  "Ext path = Ext_scan (rev path) []"

text \<open>Go's \<open>strings.HasSuffix\<close> and \<open>strings.TrimSuffix\<close>.\<close>

definition HasSuffix :: "string \<Rightarrow> string \<Rightarrow> bool" where
  "HasSuffix s suffix =
     (length suffix \<le> length s \<and> drop (length s - length suffix) s = suffix)"

definition TrimSuffix :: "string \<Rightarrow> string \<Rightarrow> string" where
  "TrimSuffix s suffix =
     (if HasSuffix s suffix then take (length s - length suffix) s else s)"

text \<open>
  \<open>filepath.Join\<close> of the temporary directory and an object name. The object name is a
  UUID followed by an extension without separator, so the cleaning step of \<open>Join\<close> has
  nothing to change when the directory is already clean.
\<close>

definition Join :: "string \<Rightarrow> string \<Rightarrow> string" where
  "Join dir name = dir @ ''/'' @ name"

section \<open>Errors\<close>

text \<open>
  Errors produced outside this repository: by the MongoDB driver, the MinIO client, and
  the operating system. \<open>minio_ErrorResponse\<close> carries the response's \<open>Code\<close>.
\<close>

datatype ext_error =
    mongo_ErrNoDocuments
  | minio_ErrorResponse string
  | io_EOF
  | other_error string

text \<open>
  The error values of the repository: the sentinels of the packages \<open>service\<close> and
  \<open>repository\<close>, errors wrapped by \<open>fmt.Errorf("...: %w", err)\<close>, and external errors
  passed through unchanged.
\<close>

datatype error =
    service_ErrFileNotFound
  | service_ErrInvalidFile
  | repository_ErrFileNotFound
  | repository_ErrBucketNotCreated
  | repository_ErrDocumentNotFound
  | Errorf string error
  | External ext_error

text \<open>\<open>errors.Is\<close>: equality with the target anywhere along the chain of wrapped errors.\<close>

fun errors_Is :: "error \<Rightarrow> error \<Rightarrow> bool" where
  "errors_Is (Errorf msg e) target = (Errorf msg e = target \<or> errors_Is e target)"
| "errors_Is e target = (e = target)"

section \<open>Data model\<close>

text \<open>
  \<open>multipart.FileHeader\<close>: the uploaded part. \<open>Header_Content_Type\<close> is
  \<open>file.Header.Get("Content-Type")\<close>, the type declared by the client (empty when the
  header is absent); \<open>Content\<close> is the part's bytes.
\<close>

record FileHeader =
  Filename :: string
  Size :: "64 word"
  Header_Content_Type :: string
  Content :: "8 word list"

text \<open>\<open>models.FileMetadata\<close>, the document stored in the collection \<open>files\<close>.\<close>

record FileMetadata =
  ID :: string
  OriginalName :: string
  FileSize :: "64 word"
  ContentType :: string
  BucketName :: string
  UploadDate :: nat
  URL :: string

text \<open>
  \<open>repository.MinioRepository\<close>: the bucket name and the host of the client's endpoint
  URL, from which public URLs are printed.
\<close>

record MinioRepository =
  EndpointHost :: string
  Bucket :: string

section \<open>The world outside the process\<close>

text \<open>
  Every call that leaves the process (file system, object store, document database) is
  logged with its argument and its outcome.
\<close>

datatype op =
    Call_Open | Call_Read | Call_Seek
  | Call_MkdirAll | Call_Create | Call_Copy | Call_Remove
  | Call_FPutObject | Call_RemoveObject
  | Call_InsertOne | Call_FindOne | Call_DeleteOne | Call_FindOneAndUpdate

type_synonym call = "op \<times> string \<times> ext_error option"

text \<open>
  The state the service works on:
  \<^item> \<open>objects\<close>: the bucket, object name to bytes and content type;
  \<^item> \<open>files_coll\<close>: the collection \<open>files\<close>, keyed by \<open>_id\<close>;
  \<^item> \<open>tmpfs\<close>: the local files under the temporary directory;
  \<^item> \<open>faults\<close>: what the outside world answers to the next external calls, one entry per
    call in the order the calls are made: \<open>None\<close> lets the call take its normal course,
    \<open>Some e\<close> makes it fail with \<open>e\<close>; past the end of the list no call is disturbed;
  \<^item> \<open>trace\<close>: the log of external calls, oldest first;
  \<^item> \<open>uuids\<close>, \<open>uuid_next\<close>: the identifiers \<open>uuid.New\<close> hands out;
  \<^item> \<open>clock\<close>: the value of \<open>time.Now\<close>;
  \<^item> \<open>TempDir\<close>: the value of \<open>os.TempDir\<close>.
\<close>

record world =
  objects :: "string \<rightharpoonup> (8 word list \<times> string)"
  files_coll :: "string \<rightharpoonup> FileMetadata"
  tmpfs :: "string \<rightharpoonup> 8 word list"
  faults :: "ext_error option list"
  trace :: "call list"
  uuids :: "nat \<Rightarrow> string"
  uuid_next :: nat
  clock :: nat
  TempDir :: string

definition next_fault :: "world \<Rightarrow> ext_error option" where
  "next_fault w = (case faults w of [] \<Rightarrow> None | f # fs \<Rightarrow> f)"

definition advance :: "world \<Rightarrow> world" where
  "advance w = w\<lparr>faults := tl (faults w)\<rparr>"

definition log_call :: "op \<Rightarrow> string \<Rightarrow> ext_error option \<Rightarrow> world \<Rightarrow> world" where
  "log_call c arg r w = w\<lparr>trace := trace w @ [(c, arg, r)]\<rparr>"

text \<open>The calls logged between an earlier world and a later one.\<close>

definition new_calls :: "world \<Rightarrow> world \<Rightarrow> call list" where
  "new_calls w w' = drop (length (trace w)) (trace w')"

text \<open>
  The calls by which \<open>saveUploadedFile\<close> stages an upload in the temporary directory,
  and the logs that consist of such calls only.
\<close>

definition staging_op :: "op \<Rightarrow> bool" where
  "staging_op c = (c \<in> {Call_Open, Call_MkdirAll, Call_Create, Call_Copy})"

definition staging_calls :: "call list \<Rightarrow> bool" where
  "staging_calls cs = list_all (\<lambda>c. staging_op (fst c)) cs"

definition uuid_New :: "world \<Rightarrow> string \<times> world" where
  "uuid_New w = (uuids w (uuid_next w), w\<lparr>uuid_next := Suc (uuid_next w)\<rparr>)"

subsection \<open>Local files\<close>

definition file_Open :: "FileHeader \<Rightarrow> world \<Rightarrow> ext_error option \<times> world" where
  "file_Open file w =
     (let r = next_fault w in (r, log_call Call_Open (Filename file) r (advance w)))"

definition os_MkdirAll :: "string \<Rightarrow> world \<Rightarrow> ext_error option \<times> world" where
  "os_MkdirAll dir w =
     (let r = next_fault w in (r, log_call Call_MkdirAll dir r (advance w)))"

text \<open>\<open>os.Create\<close> creates the file empty, or truncates it.\<close>

definition os_Create :: "string \<Rightarrow> world \<Rightarrow> ext_error option \<times> world" where
  "os_Create dst w =
     (case next_fault w of
        Some e \<Rightarrow> (Some e, log_call Call_Create dst (Some e) (advance w))
      | None \<Rightarrow>
          (None, log_call Call_Create dst None ((advance w)\<lparr>tmpfs := (tmpfs w)(dst \<mapsto> [])\<rparr>)))"

text \<open>
  \<open>io.Copy\<close> from the opened part into the created file. A failed copy leaves the file
  in place (with whatever was written before the failure; the model keeps it as created).
\<close>

definition io_Copy :: "string \<Rightarrow> FileHeader \<Rightarrow> world \<Rightarrow> ext_error option \<times> world" where
  "io_Copy dst file w =
     (case next_fault w of
        Some e \<Rightarrow> (Some e, log_call Call_Copy dst (Some e) (advance w))
      | None \<Rightarrow>
          (None, log_call Call_Copy dst None
                   ((advance w)\<lparr>tmpfs := (tmpfs w)(dst \<mapsto> Content file)\<rparr>)))"

text \<open>\<open>os.Remove\<close>: a failure leaves the file where it is.\<close>

definition os_Remove :: "string \<Rightarrow> world \<Rightarrow> ext_error option \<times> world" where
  "os_Remove path w =
     (case next_fault w of
        Some e \<Rightarrow> (Some e, log_call Call_Remove path (Some e) (advance w))
      | None \<Rightarrow>
          (None, log_call Call_Remove path None ((advance w)\<lparr>tmpfs := (tmpfs w)(path := None)\<rparr>)))"

subsection \<open>The MinIO client\<close>

text \<open>
  \<open>client.FPutObject\<close> reads the local file and stores it under the object name. It
  fails when the outside world says so, and when the local file is missing.
\<close>

definition client_FPutObject ::
  "string \<Rightarrow> string \<Rightarrow> string \<Rightarrow> world \<Rightarrow> ext_error option \<times> world" where
  "client_FPutObject objectName filePath contentType w =
     (case next_fault w of
        Some e \<Rightarrow> (Some e, log_call Call_FPutObject objectName (Some e) (advance w))
      | None \<Rightarrow>
          (case tmpfs w filePath of
             None \<Rightarrow>
               (Some (other_error ''no such file or directory''),
                log_call Call_FPutObject objectName
                  (Some (other_error ''no such file or directory'')) (advance w))
           | Some bytes \<Rightarrow>
               (None, log_call Call_FPutObject objectName None
                  ((advance w)\<lparr>objects := (objects w)(objectName \<mapsto> (bytes, contentType))\<rparr>))))"

text \<open>
  \<open>client.RemoveObject\<close>: the store's answer is the outside world's. When the store
  reports success the object is gone afterwards.
\<close>

definition client_RemoveObject :: "string \<Rightarrow> world \<Rightarrow> ext_error option \<times> world" where
  "client_RemoveObject objectName w =
     (case next_fault w of
        Some e \<Rightarrow> (Some e, log_call Call_RemoveObject objectName (Some e) (advance w))
      | None \<Rightarrow>
          (None, log_call Call_RemoveObject objectName None
                   ((advance w)\<lparr>objects := (objects w)(objectName := None)\<rparr>)))"

subsection \<open>The MongoDB collection\<close>

text \<open>\<open>collection.InsertOne\<close>: \<open>_id\<close> is the primary key, a second insert of it fails.\<close>

definition coll_InsertOne :: "FileMetadata \<Rightarrow> world \<Rightarrow> ext_error option \<times> world" where
  "coll_InsertOne metadata w =
     (case next_fault w of
        Some e \<Rightarrow> (Some e, log_call Call_InsertOne (ID metadata) (Some e) (advance w))
      | None \<Rightarrow>
          (case files_coll w (ID metadata) of
             Some old \<Rightarrow>
               (Some (other_error ''duplicate key''),
                log_call Call_InsertOne (ID metadata)
                  (Some (other_error ''duplicate key'')) (advance w))
           | None \<Rightarrow>
               (None, log_call Call_InsertOne (ID metadata) None
                  ((advance w)\<lparr>files_coll := (files_coll w)(ID metadata \<mapsto> metadata)\<rparr>))))"

text \<open>\<open>collection.FindOne(...).Decode\<close>: \<open>mongo.ErrNoDocuments\<close> when nothing matches.\<close>

definition coll_FindOne :: "string \<Rightarrow> world \<Rightarrow> (ext_error + FileMetadata) \<times> world" where
  "coll_FindOne fileID w =
     (case next_fault w of
        Some e \<Rightarrow> (Inl e, log_call Call_FindOne fileID (Some e) (advance w))
      | None \<Rightarrow>
          (case files_coll w fileID of
             None \<Rightarrow>
               (Inl mongo_ErrNoDocuments,
                log_call Call_FindOne fileID (Some mongo_ErrNoDocuments) (advance w))
           | Some doc \<Rightarrow> (Inr doc, log_call Call_FindOne fileID None (advance w))))"

text \<open>\<open>collection.DeleteOne\<close>: returns the number of documents deleted.\<close>

definition coll_DeleteOne :: "string \<Rightarrow> world \<Rightarrow> (ext_error + nat) \<times> world" where
  "coll_DeleteOne fileID w =
     (case next_fault w of
        Some e \<Rightarrow> (Inl e, log_call Call_DeleteOne fileID (Some e) (advance w))
      | None \<Rightarrow>
          (case files_coll w fileID of
             None \<Rightarrow> (Inr 0, log_call Call_DeleteOne fileID None (advance w))
           | Some doc \<Rightarrow>
               (Inr 1, log_call Call_DeleteOne fileID None
                  ((advance w)\<lparr>files_coll := (files_coll w)(fileID := None)\<rparr>))))"

text \<open>
  \<open>collection.FindOneAndUpdate\<close> with the \<open>$set\<close> document of \<open>UpdateMetadata\<close>: six
  fields are overwritten, \<open>_id\<close> stays.
\<close>

definition coll_FindOneAndUpdate ::
  "string \<Rightarrow> FileMetadata \<Rightarrow> world \<Rightarrow> ext_error option \<times> world" where
  "coll_FindOneAndUpdate fileID metadata w =
     (case next_fault w of
        Some e \<Rightarrow> (Some e, log_call Call_FindOneAndUpdate fileID (Some e) (advance w))
      | None \<Rightarrow>
          (case files_coll w fileID of
             None \<Rightarrow>
               (Some mongo_ErrNoDocuments,
                log_call Call_FindOneAndUpdate fileID (Some mongo_ErrNoDocuments) (advance w))
           | Some doc \<Rightarrow>
               (None, log_call Call_FindOneAndUpdate fileID None
                  ((advance w)\<lparr>files_coll := (files_coll w)(fileID \<mapsto>
                     doc\<lparr>OriginalName := OriginalName metadata,
                         FileSize := FileSize metadata,
                         ContentType := ContentType metadata,
                         BucketName := BucketName metadata,
                         UploadDate := UploadDate metadata,
                         URL := URL metadata\<rparr>)\<rparr>))))"

section \<open>The repositories\<close>

subsection \<open>\<open>MinioRepository\<close>\<close>

definition MinioRepository_UploadFile ::
  "MinioRepository \<Rightarrow> string \<Rightarrow> string \<Rightarrow> string \<Rightarrow> world \<Rightarrow> (error + string) \<times> world" where
  "MinioRepository_UploadFile m objectName filePath contentType w =
     (case client_FPutObject objectName filePath contentType w of
        (Some err, w1) \<Rightarrow> (Inl (Errorf ''upload error: %w'' (External err)), w1)
      | (None, w1) \<Rightarrow>
          (Inr (''http://'' @ EndpointHost m @ ''/'' @ Bucket m @ ''/'' @ objectName), w1))"

definition MinioRepository_DeleteFile ::
  "MinioRepository \<Rightarrow> string \<Rightarrow> world \<Rightarrow> error option \<times> world" where
  "MinioRepository_DeleteFile m objectName w =
     (case client_RemoveObject objectName w of
        (Some err, w1) \<Rightarrow>
          (if (case err of minio_ErrorResponse code \<Rightarrow> code = ''NoSuchKey'' | _ \<Rightarrow> False)
           then (Some repository_ErrFileNotFound, w1)
           else (Some (Errorf ''delete error: %w'' (External err)), w1))
      | (None, w1) \<Rightarrow> (None, w1))"

subsection \<open>\<open>MongoRepository\<close>\<close>

definition MongoRepository_SaveMetadata :: "FileMetadata \<Rightarrow> world \<Rightarrow> error option \<times> world" where
  "MongoRepository_SaveMetadata metadata w =
     (case coll_InsertOne metadata w of
        (Some err, w1) \<Rightarrow> (Some (External err), w1)
      | (None, w1) \<Rightarrow> (None, w1))"

definition MongoRepository_GetMetadata ::
  "string \<Rightarrow> world \<Rightarrow> (error + FileMetadata) \<times> world" where
  "MongoRepository_GetMetadata fileID w =
     (case coll_FindOne fileID w of
        (Inl err, w1) \<Rightarrow>
          (if errors_Is (External err) (External mongo_ErrNoDocuments)
           then (Inl repository_ErrDocumentNotFound, w1)
           else (Inl (External err), w1))
      | (Inr result, w1) \<Rightarrow> (Inr result, w1))"

definition MongoRepository_DeleteMetadata :: "string \<Rightarrow> world \<Rightarrow> error option \<times> world" where
  "MongoRepository_DeleteMetadata fileID w =
     (case coll_DeleteOne fileID w of
        (Inl err, w1) \<Rightarrow> (Some (External err), w1)
      | (Inr DeletedCount, w1) \<Rightarrow>
          (if DeletedCount = 0 then (Some repository_ErrDocumentNotFound, w1) else (None, w1)))"

definition MongoRepository_UpdateMetadata ::
  "string \<Rightarrow> FileMetadata \<Rightarrow> world \<Rightarrow> error option \<times> world" where
  "MongoRepository_UpdateMetadata fileID metadata w =
     (case coll_FindOneAndUpdate fileID metadata w of
        (Some err, w1) \<Rightarrow>
          (if errors_Is (External err) (External mongo_ErrNoDocuments)
           then (Some repository_ErrDocumentNotFound, w1)
           else (Some (External err), w1))
      | (None, w1) \<Rightarrow> (None, w1))"

section \<open>The file service\<close>

text \<open>
  \<open>filepath.Dir\<close>: the path up to its last separator, without that separator; \<open>.\<close> when
  there is none.
\<close>

definition Dir :: "string \<Rightarrow> string" where
  "Dir path =
     (let d = rev (dropWhile (\<lambda>c. c \<noteq> CHR ''/'') (rev path))
      in if d = [] then ''.'' else if butlast d = [] then ''/'' else butlast d)"

text \<open>
  \<open>saveUploadedFile\<close>: open the part, make the directory, create the destination, copy.
  Each step returns its error at once; the file created by \<open>os.Create\<close> is not removed
  here when the copy fails.
\<close>

definition saveUploadedFile :: "FileHeader \<Rightarrow> string \<Rightarrow> world \<Rightarrow> error option \<times> world" where
  "saveUploadedFile file dst w =
     (case file_Open file w of
        (Some err, w1) \<Rightarrow> (Some (External err), w1)
      | (None, w1) \<Rightarrow>
          (case os_MkdirAll (Dir dst) w1 of
             (Some err, w2) \<Rightarrow> (Some (External err), w2)
           | (None, w2) \<Rightarrow>
               (case os_Create dst w2 of
                  (Some err, w3) \<Rightarrow> (Some (External err), w3)
                | (None, w3) \<Rightarrow>
                    (case io_Copy dst file w3 of
                       (err, w4) \<Rightarrow> (map_option External err, w4)))))"

text \<open>
  \<open>FileService.UploadFile\<close>. The statement \<open>defer os.Remove(localPath)\<close> stands after the
  early return on a failed save, so the removal runs on the exits below it only.
\<close>

definition FileService_UploadFile ::
  "MinioRepository \<Rightarrow> FileHeader \<Rightarrow> world \<Rightarrow> (error + string) \<times> world" where
  "FileService_UploadFile m file w =
     (case uuid_New w of
        (fileID, w0) \<Rightarrow>
          (let ext = Ext (Filename file);
               objectName = fileID @ ext;
               localPath = Join (TempDir w0) objectName
           in case saveUploadedFile file localPath w0 of
                (Some err, w1) \<Rightarrow> (Inl err, w1)
              | (None, w1) \<Rightarrow>
                  (case MinioRepository_UploadFile m objectName localPath
                          (Header_Content_Type file) w1 of
                     (Inl err, w2) \<Rightarrow> (Inl err, snd (os_Remove localPath w2))
                   | (Inr url, w2) \<Rightarrow>
                       (let metadata =
                              \<lparr>ID = fileID,
                               OriginalName = TrimSuffix (Filename file) ext,
                               FileSize = Size file,
                               ContentType = Header_Content_Type file,
                               BucketName = Bucket m,
                               UploadDate = clock w2,
                               URL = url\<rparr>
                        in case MongoRepository_SaveMetadata metadata w2 of
                             (Some err, w3) \<Rightarrow>
                               (case MinioRepository_DeleteFile m objectName w3 of
                                  (ignored, w4) \<Rightarrow> (Inl err, snd (os_Remove localPath w4)))
                           | (None, w3) \<Rightarrow> (Inr url, snd (os_Remove localPath w3))))))"

definition FileService_DeleteFile ::
  "MinioRepository \<Rightarrow> string \<Rightarrow> world \<Rightarrow> error option \<times> world" where
  "FileService_DeleteFile m fileID w =
     (case MongoRepository_GetMetadata fileID w of
        (Inl err, w1) \<Rightarrow>
          (if errors_Is err (External mongo_ErrNoDocuments)
           then (Some service_ErrFileNotFound, w1)
           else (Some err, w1))
      | (Inr metadata, w1) \<Rightarrow>
          (let objectName = fileID @ Ext (OriginalName metadata)
           in case MinioRepository_DeleteFile m objectName w1 of
                (Some err, w2) \<Rightarrow> (Some err, w2)
              | (None, w2) \<Rightarrow> MongoRepository_DeleteMetadata fileID w2))"

definition FileService_ReplaceFile ::
  "MinioRepository \<Rightarrow> string \<Rightarrow> FileHeader \<Rightarrow> world \<Rightarrow> (error + string) \<times> world" where
  "FileService_ReplaceFile m fileID newFile w =
     (case MongoRepository_GetMetadata fileID w of
        (Inl err, w1) \<Rightarrow>
          (if errors_Is err (External mongo_ErrNoDocuments)
           then (Inl service_ErrFileNotFound, w1)
           else (Inl err, w1))
      | (Inr oldMetadata, w1) \<Rightarrow>
          (let oldObjectName = fileID @ Ext (OriginalName oldMetadata)
           in case MinioRepository_DeleteFile m oldObjectName w1 of
                (Some err, w2) \<Rightarrow> (Inl err, w2)
              | (None, w2) \<Rightarrow>
                  (let newExt = Ext (Filename newFile);
                       newObjectName = fileID @ newExt;
                       localPath = Join (TempDir w2) newObjectName
                   in case saveUploadedFile newFile localPath w2 of
                        (Some err, w3) \<Rightarrow> (Inl err, w3)
                      | (None, w3) \<Rightarrow>
                          (case MinioRepository_UploadFile m newObjectName localPath
                                  (Header_Content_Type newFile) w3 of
                             (Inl err, w4) \<Rightarrow> (Inl err, snd (os_Remove localPath w4))
                           | (Inr url, w4) \<Rightarrow>
                               (let newMetadata =
                                      \<lparr>ID = fileID,
                                       OriginalName = TrimSuffix (Filename newFile) newExt,
                                       FileSize = Size newFile,
                                       ContentType = Header_Content_Type newFile,
                                       BucketName = Bucket m,
                                       UploadDate = clock w4,
                                       URL = url\<rparr>
                                in case MongoRepository_UpdateMetadata fileID newMetadata w4 of
                                     (Some err, w5) \<Rightarrow>
                                       (case MinioRepository_DeleteFile m newObjectName w5 of
                                          (ignored, w6) \<Rightarrow>
                                            (Inl err, snd (os_Remove localPath w6)))
                                   | (None, w5) \<Rightarrow>
                                       (Inr url, snd (os_Remove localPath w5)))))))"

definition FileService_GetFileMetadata ::
  "string \<Rightarrow> world \<Rightarrow> (error + FileMetadata) \<times> world" where
  "FileService_GetFileMetadata fileID w = MongoRepository_GetMetadata fileID w"

section \<open>The HTTP handlers\<close>

datatype body = ErrorResponse string | SuccessResponse string | MetadataResponse FileMetadata

type_synonym response = "nat \<times> body"

text \<open>
  \<open>src.Read(buf)\<close> into a fresh buffer of 512 zero bytes: the bytes read overwrite the
  front of the buffer, the rest stays zero, and the whole buffer is what is classified.
  Reading an empty part fails with \<open>io.EOF\<close>.
\<close>

definition src_Read :: "FileHeader \<Rightarrow> world \<Rightarrow> (ext_error + 8 word list) \<times> world" where
  "src_Read file w =
     (case next_fault w of
        Some e \<Rightarrow> (Inl e, log_call Call_Read (Filename file) (Some e) (advance w))
      | None \<Rightarrow>
          (if Content file = []
           then (Inl io_EOF, log_call Call_Read (Filename file) (Some io_EOF) (advance w))
           else (Inr (take 512 (Content file) @ replicate (512 - length (Content file)) 0),
                 log_call Call_Read (Filename file) None (advance w))))"

definition src_Seek :: "FileHeader \<Rightarrow> world \<Rightarrow> ext_error option \<times> world" where
  "src_Seek file w =
     (let r = next_fault w in (r, log_call Call_Seek (Filename file) r (advance w)))"

text \<open>
  \<open>detectContentType\<close>. The classifier \<open>http.DetectContentType\<close> of Go's standard
  library is the parameter \<open>sniff\<close>.
\<close>

definition detectContentType ::
  "(8 word list \<Rightarrow> string) \<Rightarrow> FileHeader \<Rightarrow> world \<Rightarrow> (error + string) \<times> world" where
  "detectContentType sniff file w =
     (case file_Open file w of
        (Some err, w1) \<Rightarrow> (Inl (External err), w1)
      | (None, w1) \<Rightarrow>
          (case src_Read file w1 of
             (Inl err, w2) \<Rightarrow> (Inl (External err), w2)
           | (Inr buf, w2) \<Rightarrow>
               (let contentType = sniff buf
                in case src_Seek file w2 of
                     (Some err, w3) \<Rightarrow> (Inl (External err), w3)
                   | (None, w3) \<Rightarrow> (Inr contentType, w3))))"

text \<open>The two allow-lists of the upload handler and the allow-list of the replace handler.\<close>

definition UploadFile_allowedExtensions :: "string \<Rightarrow> bool" where
  "UploadFile_allowedExtensions ext =
     (ext \<in> set [''.jpg'', ''.jpeg'', ''.png'', ''.mp4'', ''.mov'', ''.avi'', ''.mkv''])"

definition UploadFile_allowedTypes :: "string \<Rightarrow> bool" where
  "UploadFile_allowedTypes contentType =
     (contentType \<in> set [''image/jpeg'', ''image/png'', ''video/mp4'', ''video/quicktime'',
                          ''video/x-msvideo'', ''video/x-matroska''])"

definition ReplaceFile_allowedTypes :: "string \<Rightarrow> bool" where
  "ReplaceFile_allowedTypes contentType =
     (contentType \<in> set [''image/jpeg'', ''image/png'', ''video/mp4''])"

text \<open>
  \<open>FileHandler.UploadFile\<close>. The argument \<open>formFile\<close> is the result of
  \<open>c.FormFile("file")\<close>: \<open>None\<close> when the form has no such part or the body is over the
  size limit. \<open>strings.ToLower\<close> of Go's standard library, which maps every letter of
  Unicode to its lower case, is the parameter \<open>ToLower\<close>.
\<close>

definition FileHandler_UploadFile ::
  "(string \<Rightarrow> string) \<Rightarrow> (8 word list \<Rightarrow> string) \<Rightarrow> MinioRepository
     \<Rightarrow> FileHeader option \<Rightarrow> world \<Rightarrow> response \<times> world" where
  "FileHandler_UploadFile ToLower sniff m formFile w =
     (case formFile of
        None \<Rightarrow> ((400, ErrorResponse ''File upload error''), w)
      | Some file \<Rightarrow>
          (let ext = ToLower (Ext (Filename file))
           in if \<not> UploadFile_allowedExtensions ext
              then ((400, ErrorResponse ''Unsupported file extension''), w)
              else
                (case detectContentType sniff file w of
                   (Inl err, w1) \<Rightarrow> ((400, ErrorResponse ''Invalid file content''), w1)
                 | (Inr contentType, w1) \<Rightarrow>
                     (if \<not> UploadFile_allowedTypes contentType
                      then ((400, ErrorResponse ''Unsupported file type''), w1)
                      else
                        (case FileService_UploadFile m file w1 of
                           (Inl err, w2) \<Rightarrow> ((500, ErrorResponse ''Failed to process file''), w2)
                         | (Inr url, w2) \<Rightarrow> ((200, SuccessResponse url), w2))))))"

text \<open>
  The handlers addressed by identifier first parse it with \<open>uuid.Parse\<close>; whether the
  parse succeeds is the parameter \<open>uuid_Parse\<close>.
\<close>

definition FileHandler_DeleteFile ::
  "(string \<Rightarrow> bool) \<Rightarrow> MinioRepository \<Rightarrow> string \<Rightarrow> world \<Rightarrow> response \<times> world" where
  "FileHandler_DeleteFile uuid_Parse m fileID w =
     (if \<not> uuid_Parse fileID then ((400, ErrorResponse ''Invalid file ID format''), w)
      else
        (case FileService_DeleteFile m fileID w of
           (Some err, w1) \<Rightarrow>
             (if err = service_ErrFileNotFound
              then ((404, ErrorResponse ''File not found''), w1)
              else ((500, ErrorResponse ''Failed to delete file''), w1))
         | (None, w1) \<Rightarrow> ((200, SuccessResponse (''File '' @ fileID @ '' deleted'')), w1)))"

definition FileHandler_ReplaceFile ::
  "(string \<Rightarrow> bool) \<Rightarrow> (8 word list \<Rightarrow> string) \<Rightarrow> MinioRepository \<Rightarrow> string
     \<Rightarrow> FileHeader option \<Rightarrow> world \<Rightarrow> response \<times> world" where
  "FileHandler_ReplaceFile uuid_Parse sniff m fileID formFile w =
     (if \<not> uuid_Parse fileID then ((400, ErrorResponse ''Invalid file ID format''), w)
      else
        (case formFile of
           None \<Rightarrow> ((400, ErrorResponse ''File upload error''), w)
         | Some file \<Rightarrow>
             (case detectContentType sniff file w of
                (Inl err, w1) \<Rightarrow> ((400, ErrorResponse ''Invalid file content''), w1)
              | (Inr contentType, w1) \<Rightarrow>
                  (if \<not> ReplaceFile_allowedTypes contentType
                   then ((400, ErrorResponse ''Unsupported file type''), w1)
                   else
                     (case FileService_ReplaceFile m fileID file w1 of
                        (Inl err, w2) \<Rightarrow>
                          (if err = service_ErrFileNotFound
                           then ((404, ErrorResponse ''File not found''), w2)
                           else ((500, ErrorResponse ''Failed to replace file''), w2))
                      | (Inr url, w2) \<Rightarrow> ((200, SuccessResponse url), w2))))))"

definition FileHandler_GetFileMetadata ::
  "(string \<Rightarrow> bool) \<Rightarrow> string \<Rightarrow> world \<Rightarrow> response \<times> world" where
  "FileHandler_GetFileMetadata uuid_Parse fileID w =
     (if \<not> uuid_Parse fileID then ((400, ErrorResponse ''Invalid file ID format''), w)
      else
        (case FileService_GetFileMetadata fileID w of
           (Inl err, w1) \<Rightarrow>
             (if err = service_ErrFileNotFound
              then ((404, ErrorResponse ''File not found''), w1)
              else ((500, ErrorResponse ''Failed to get file metadata''), w1))
         | (Inr metadata, w1) \<Rightarrow> ((200, MetadataResponse metadata), w1)))"

section \<open>Authentication middleware\<close>

text \<open>
  \<open>c.GetHeader\<close> and \<open>os.Getenv\<close> both answer the empty string for a name that is not
  there. Request headers and the process environment are maps from names to values.
\<close>

definition GetHeader :: "(string \<rightharpoonup> string) \<Rightarrow> string \<Rightarrow> string" where
  "GetHeader headers key = (case headers key of None \<Rightarrow> [] | Some v \<Rightarrow> v)"

definition Getenv :: "(string \<rightharpoonup> string) \<Rightarrow> string \<Rightarrow> string" where
  "Getenv environ key = (case environ key of None \<Rightarrow> [] | Some v \<Rightarrow> v)"

datatype auth_result = AbortWithStatusJSON nat string | Next

definition apiKeyAuth :: "(string \<rightharpoonup> string) \<Rightarrow> (string \<rightharpoonup> string) \<Rightarrow> auth_result" where
  "apiKeyAuth environ headers =
     (let apiKey = GetHeader headers ''Authorization''
      in if apiKey \<noteq> Getenv environ ''API_KEY''
         then AbortWithStatusJSON 401 ''Unauthorized''
         else Next)"

text \<open>
  A route of the group \<open>/api/v1\<close>: the middleware runs first, and the handler runs only
  after \<open>c.Next()\<close>.
\<close>

definition api_v1 ::
  "(string \<rightharpoonup> string) \<Rightarrow> (string \<rightharpoonup> string) \<Rightarrow> (world \<Rightarrow> response \<times> world) \<Rightarrow> world
     \<Rightarrow> response \<times> world" where
  "api_v1 environ headers handler w =
     (case apiKeyAuth environ headers of
        AbortWithStatusJSON code msg \<Rightarrow> ((code, ErrorResponse msg), w)
      | Next \<Rightarrow> handler w)"

section \<open>Concrete inputs\<close>

text \<open>
  A classifier for concrete runs: the PNG and JPEG signatures of the sniffing table of
  \<open>net/http\<close>; every other buffer is classified as \<open>application/octet-stream\<close> here. The
  general theorems below do not use it, they hold for any classifier.
\<close>

definition sniff_png_jpeg :: "8 word list \<Rightarrow> string" where
  "sniff_png_jpeg buf =
     (if take 8 buf = [0x89, 0x50, 0x4E, 0x47, 0x0D, 0x0A, 0x1A, 0x0A] then ''image/png''
      else if take 3 buf = [0xFF, 0xD8, 0xFF] then ''image/jpeg''
      else ''application/octet-stream'')"

text \<open>
  A lower-casing for concrete runs: on a string of ASCII bytes \<open>strings.ToLower\<close> shifts
  the letters A to Z to a to z and keeps every other byte, and so does this function. It
  is applied below to ASCII names only; the general theorems do not use it, they hold
  for any lower-casing.
\<close>

definition lower_ascii_byte :: "char \<Rightarrow> char" where
  "lower_ascii_byte c =
     (let n = (of_char c :: nat)
      in if 65 \<le> n \<and> n \<le> 90 then char_of (n + 32) else c)"

definition ToLower_ascii :: "string \<Rightarrow> string" where
  "ToLower_ascii s = map lower_ascii_byte s"

definition png_bytes :: "8 word list" where
  "png_bytes = [0x89, 0x50, 0x4E, 0x47, 0x0D, 0x0A, 0x1A, 0x0A, 0x00, 0x00, 0x00, 0x0D]"

definition repo :: MinioRepository where
  "repo = \<lparr>EndpointHost = ''localhost:9000'', Bucket = ''user-uploads''\<rparr>"

definition id1 :: string where
  "id1 = ''6f1c2a9e-0b7d-4c3a-9e55-1d2f3a4b5c6d''"

text \<open>An empty bucket, an empty collection, no local files, and no disturbed call.\<close>

definition empty_world :: world where
  "empty_world =
     \<lparr>objects = Map.empty, files_coll = Map.empty, tmpfs = Map.empty, faults = [],
      trace = [], uuids = (\<lambda>n. id1), uuid_next = 0, clock = 0, TempDir = ''/tmp''\<rparr>"

definition photo_png :: FileHeader where
  "photo_png =
     \<lparr>Filename = ''photo.png'', Size = 12, Header_Content_Type = ''image/png'',
      Content = png_bytes\<rparr>"

text \<open>The same PNG bytes under a name that ends in \<open>.jpg\<close>.\<close>

definition png_named_jpg :: FileHeader where
  "png_named_jpg =
     \<lparr>Filename = ''photo.jpg'', Size = 12, Header_Content_Type = ''image/jpeg'',
      Content = png_bytes\<rparr>"

text \<open>The same PNG bytes, declared by the client as \<open>text/html\<close>.\<close>

definition png_declared_html :: FileHeader where
  "png_declared_html =
     \<lparr>Filename = ''photo.png'', Size = 12, Header_Content_Type = ''text/html'',
      Content = png_bytes\<rparr>"

text \<open>The record that the upload of \<open>photo_png\<close> stores.\<close>

definition stored_photo :: FileMetadata where
  "stored_photo =
     \<lparr>ID = id1, OriginalName = ''photo'', FileSize = 12, ContentType = ''image/png'',
      BucketName = ''user-uploads'', UploadDate = 0,
      URL = ''http://localhost:9000/user-uploads/6f1c2a9e-0b7d-4c3a-9e55-1d2f3a4b5c6d.png''\<rparr>"

text \<open>
  The record exists, the bucket holds nothing, and the store answers the delete of the
  object with an error response of code \<open>NoSuchKey\<close>.
\<close>

definition blob_gone_world :: world where
  "blob_gone_world =
     empty_world\<lparr>files_coll := [id1 \<mapsto> stored_photo],
                 faults := [None, Some (minio_ErrorResponse ''NoSuchKey'')]\<rparr>"

text \<open>Staging and the blob put succeed; the insert fails, and so does the delete after it.\<close>

definition insert_fails_world :: world where
  "insert_fails_world =
     empty_world\<lparr>faults := [None, None, None, None, None,
                            Some (other_error ''server selection timeout''),
                            Some (other_error ''connection refused'')]\<rparr>"

text \<open>Staging succeeds; the blob put fails.\<close>

definition put_fails_world :: world where
  "put_fails_world =
     empty_world\<lparr>faults := [None, None, None, None, Some (other_error ''connection refused'')]\<rparr>"

text \<open>The part opens and the staging file is created; the copy into it fails.\<close>

definition copy_fails_world :: world where
  "copy_fails_world =
     empty_world\<lparr>faults := [None, None, None, Some (other_error ''no space left on device'')]\<rparr>"

text \<open>
  The record exists; lookup, delete of the old blob, opening the part and creating the
  staging file succeed; the copy fails.
\<close>

definition replace_copy_fails_world :: world where
  "replace_copy_fails_world =
     empty_world\<lparr>files_coll := [id1 \<mapsto> stored_photo],
                 faults := [None, None, None, None, None,
                            Some (other_error ''no space left on device'')]\<rparr>"

text \<open>The world after \<open>photo_png\<close> was uploaded into the empty world.\<close>

definition uploaded_world :: world where
  "uploaded_world = snd (FileService_UploadFile repo photo_png empty_world)"

section \<open>Basic facts about the world\<close>

lemma advance_fields [simp]:
  "objects (advance w) = objects w"
  "files_coll (advance w) = files_coll w"
  "tmpfs (advance w) = tmpfs w"
  "trace (advance w) = trace w"
  "uuids (advance w) = uuids w"
  "uuid_next (advance w) = uuid_next w"
  "clock (advance w) = clock w"
  "TempDir (advance w) = TempDir w"
  by (simp_all add: advance_def)

lemma next_fault_update [simp]:
  "next_fault (w\<lparr>objects := a\<rparr>) = next_fault w"
  "next_fault (w\<lparr>files_coll := b\<rparr>) = next_fault w"
  "next_fault (w\<lparr>tmpfs := c\<rparr>) = next_fault w"
  "next_fault (w\<lparr>trace := d\<rparr>) = next_fault w"
  "next_fault (w\<lparr>uuid_next := n\<rparr>) = next_fault w"
  by (simp_all add: next_fault_def)

lemma advance_update [simp]:
  "advance (w\<lparr>objects := a\<rparr>) = (advance w)\<lparr>objects := a\<rparr>"
  "advance (w\<lparr>files_coll := b\<rparr>) = (advance w)\<lparr>files_coll := b\<rparr>"
  "advance (w\<lparr>tmpfs := c\<rparr>) = (advance w)\<lparr>tmpfs := c\<rparr>"
  "advance (w\<lparr>trace := d\<rparr>) = (advance w)\<lparr>trace := d\<rparr>"
  "advance (w\<lparr>uuid_next := n\<rparr>) = (advance w)\<lparr>uuid_next := n\<rparr>"
  by (simp_all add: advance_def)

section \<open>What each building block does to the world\<close>

text \<open>
  One lemma per function below the service: which stores it leaves alone, which call it
  logs, and how its result follows from the outcome of that call.
\<close>

lemma staging_calls_member [simp]:
  "staging_calls cs \<Longrightarrow> \<not> staging_op c \<Longrightarrow> ((c, a, b) \<in> set cs) = False"
  by (auto simp: staging_calls_def list_all_iff)

lemma staging_calls_filter [simp]:
  "staging_calls cs \<Longrightarrow> \<not> staging_op c \<Longrightarrow> filter (\<lambda>x. fst x = c) cs = []"
  by (auto simp: staging_calls_def list_all_iff filter_empty_conv)

lemma staging_op_simps [simp]:
  "staging_op Call_Open" "staging_op Call_MkdirAll" "staging_op Call_Create" "staging_op Call_Copy"
  "\<not> staging_op Call_Remove" "\<not> staging_op Call_FPutObject" "\<not> staging_op Call_RemoveObject"
  "\<not> staging_op Call_InsertOne" "\<not> staging_op Call_FindOne" "\<not> staging_op Call_DeleteOne"
  "\<not> staging_op Call_FindOneAndUpdate" "\<not> staging_op Call_Read" "\<not> staging_op Call_Seek"
  by (simp_all add: staging_op_def)

lemma uuid_New_effect:
  assumes "uuid_New w = (fileID, w0)"
  shows "fileID = uuids w (uuid_next w) \<and> objects w0 = objects w \<and> files_coll w0 = files_coll w \<and>
         tmpfs w0 = tmpfs w \<and> trace w0 = trace w \<and> clock w0 = clock w \<and> TempDir w0 = TempDir w"
  using assms by (auto simp: uuid_New_def)

lemma saveUploadedFile_effect:
  assumes "saveUploadedFile file dst w = (r, w1)"
  shows "objects w1 = objects w \<and> files_coll w1 = files_coll w \<and> clock w1 = clock w \<and>
         TempDir w1 = TempDir w \<and>
         (\<exists>k cs. trace w1 = trace w @ (Call_Open, Filename file, k) # cs \<and>
            staging_calls cs) \<and>
         (r = None \<longrightarrow> tmpfs w1 dst \<noteq> None)"
  using assms
  by (auto simp: saveUploadedFile_def file_Open_def os_MkdirAll_def os_Create_def io_Copy_def
        log_call_def Let_def staging_calls_def split: option.splits if_splits)

lemma os_Remove_effect:
  assumes "os_Remove path w = (r, w1)"
  shows "objects w1 = objects w \<and> files_coll w1 = files_coll w \<and>
         trace w1 = trace w @ [(Call_Remove, path, r)] \<and>
         (r = None \<longrightarrow> tmpfs w1 path = None)"
  using assms by (auto simp: os_Remove_def log_call_def split: option.splits)

lemma os_Remove_snd [simp]:
  "objects (snd (os_Remove path w)) = objects w"
  "files_coll (snd (os_Remove path w)) = files_coll w"
  "trace (snd (os_Remove path w)) = trace w @ [(Call_Remove, path, next_fault w)]"
  by (simp_all add: os_Remove_def log_call_def split: option.splits)

lemma MinioRepository_UploadFile_effect:
  assumes "MinioRepository_UploadFile m objectName filePath contentType w = (r, w1)"
  shows "files_coll w1 = files_coll w \<and> tmpfs w1 = tmpfs w \<and> clock w1 = clock w \<and>
         (\<exists>d. trace w1 = trace w @ [(Call_FPutObject, objectName, d)] \<and>
              (case d of
                 None \<Rightarrow> r = Inr (''http://'' @ EndpointHost m @ ''/'' @ Bucket m @ ''/'' @ objectName)
               | Some e \<Rightarrow> r = Inl (Errorf ''upload error: %w'' (External e)) \<and>
                            objects w1 = objects w))"
  using assms
  by (auto simp: MinioRepository_UploadFile_def client_FPutObject_def log_call_def
        split: option.splits)

lemma MinioRepository_DeleteFile_effect:
  assumes "MinioRepository_DeleteFile m objectName w = (r, w1)"
  shows "files_coll w1 = files_coll w \<and> tmpfs w1 = tmpfs w \<and> TempDir w1 = TempDir w \<and>
         (\<exists>d. trace w1 = trace w @ [(Call_RemoveObject, objectName, d)] \<and>
              r = map_option (\<lambda>e. if e = minio_ErrorResponse ''NoSuchKey''
                                    then repository_ErrFileNotFound
                                    else Errorf ''delete error: %w'' (External e)) d \<and>
              (d \<noteq> None \<longrightarrow> objects w1 = objects w))"
  using assms
  by (auto simp: MinioRepository_DeleteFile_def client_RemoveObject_def log_call_def
        split: option.splits ext_error.splits if_splits)

lemma MongoRepository_SaveMetadata_effect:
  assumes "MongoRepository_SaveMetadata metadata w = (r, w1)"
  shows "objects w1 = objects w \<and> tmpfs w1 = tmpfs w \<and>
         (\<exists>d. trace w1 = trace w @ [(Call_InsertOne, ID metadata, d)] \<and>
              r = map_option External d \<and>
              files_coll w1 = (if d = None then (files_coll w)(ID metadata \<mapsto> metadata)
                               else files_coll w))"
  using assms
  by (auto simp: MongoRepository_SaveMetadata_def coll_InsertOne_def log_call_def
        split: option.splits)

lemma MongoRepository_GetMetadata_effect:
  assumes "MongoRepository_GetMetadata fileID w = (r, w1)"
  shows "objects w1 = objects w \<and> files_coll w1 = files_coll w \<and> tmpfs w1 = tmpfs w \<and>
         TempDir w1 = TempDir w \<and>
         (\<exists>d. trace w1 = trace w @ [(Call_FindOne, fileID, d)] \<and>
              (case d of
                 None \<Rightarrow> (\<exists>metadata. r = Inr metadata \<and> files_coll w fileID = Some metadata)
               | Some e \<Rightarrow> r = Inl (if e = mongo_ErrNoDocuments
                                     then repository_ErrDocumentNotFound else External e)))"
  using assms
  by (auto simp: MongoRepository_GetMetadata_def coll_FindOne_def log_call_def
        split: option.splits if_splits)

lemma MongoRepository_DeleteMetadata_effect:
  assumes "MongoRepository_DeleteMetadata fileID w = (r, w1)"
  shows "objects w1 = objects w \<and> tmpfs w1 = tmpfs w \<and>
         (\<exists>d. trace w1 = trace w @ [(Call_DeleteOne, fileID, d)] \<and>
              (case d of
                 None \<Rightarrow> files_coll w1 = (files_coll w)(fileID := None) \<and>
                          r = (if files_coll w fileID = None
                               then Some repository_ErrDocumentNotFound else None)
               | Some e \<Rightarrow> r = Some (External e) \<and> files_coll w1 = files_coll w))"
  using assms
  by (auto simp: MongoRepository_DeleteMetadata_def coll_DeleteOne_def log_call_def fun_upd_idem
        split: option.splits if_splits)

lemma MongoRepository_UpdateMetadata_effect:
  assumes "MongoRepository_UpdateMetadata fileID metadata w = (r, w1)"
  shows "objects w1 = objects w \<and> tmpfs w1 = tmpfs w \<and>
         (\<exists>d. trace w1 = trace w @ [(Call_FindOneAndUpdate, fileID, d)] \<and>
              (r = None) = (d = None))"
  using assms
  by (auto simp: MongoRepository_UpdateMetadata_def coll_FindOneAndUpdate_def log_call_def
        split: option.splits if_splits)

lemmas effects = uuid_New_effect saveUploadedFile_effect os_Remove_effect
  MinioRepository_UploadFile_effect MinioRepository_DeleteFile_effect
  MongoRepository_SaveMetadata_effect MongoRepository_GetMetadata_effect
  MongoRepository_DeleteMetadata_effect MongoRepository_UpdateMetadata_effect

lemma detectContentType_effect:
  assumes "detectContentType sniff file w = (r, w1)"
  shows "objects w1 = objects w \<and> files_coll w1 = files_coll w \<and> tmpfs w1 = tmpfs w \<and>
         uuids w1 = uuids w \<and> uuid_next w1 = uuid_next w \<and> clock w1 = clock w \<and>
         TempDir w1 = TempDir w"
  using assms
  by (auto simp: detectContentType_def file_Open_def src_Read_def src_Seek_def log_call_def
        Let_def split: option.splits if_splits)

lemma UploadFile_stored_record:
  assumes "FileService_UploadFile m file w = (Inr url, w')"
  shows "files_coll w' (uuids w (uuid_next w)) =
           Some \<lparr>ID = uuids w (uuid_next w),
                 OriginalName = TrimSuffix (Filename file) (Ext (Filename file)),
                 FileSize = Size file,
                 ContentType = Header_Content_Type file,
                 BucketName = Bucket m,
                 UploadDate = clock w,
                 URL = url\<rparr>"
  using assms
  by (auto simp: FileService_UploadFile_def Let_def
        split: prod.splits option.splits sum.splits if_splits dest!: effects)

section \<open>Upload after a successful staging\<close>

text \<open>
  Once the copy into the staging file has succeeded, every exit of Upload calls
  \<open>os.Remove\<close> on it exactly once, and the file is gone when that call succeeds.
\<close>

lemma os_Remove_snd_tmpfs:
  "tmpfs (snd (os_Remove path w)) path = (if next_fault w = None then None else tmpfs w path)"
  by (simp add: os_Remove_def log_call_def split: option.splits)

lemma UploadFile_removes_staged_file:
  assumes run: "FileService_UploadFile m file w = (r, w')"
    and staged: "(Call_Copy, localPath, None) \<in> set (new_calls w w')"
  shows "\<exists>d. filter (\<lambda>c. fst c = Call_Remove) (new_calls w w') = [(Call_Remove, localPath, d)] \<and>
             (d = None \<longrightarrow> tmpfs w' localPath = None)"
  using assms
  by (auto simp: FileService_UploadFile_def saveUploadedFile_def file_Open_def os_MkdirAll_def
        os_Create_def io_Copy_def log_call_def new_calls_def Let_def os_Remove_snd_tmpfs
        split: prod.splits option.splits sum.splits if_splits
        dest!: uuid_New_effect MinioRepository_UploadFile_effect MinioRepository_DeleteFile_effect
          MongoRepository_SaveMetadata_effect)

section \<open>Unknown identifiers\<close>

text \<open>
  Claim C1: Get, Replace and Delete on an identifier without a record are to fail with
  \<open>service.ErrFileNotFound\<close>, which the handlers answer with 404. In the empty world no
  identifier has a record. \<open>GetMetadata\<close> has already replaced \<open>mongo.ErrNoDocuments\<close>
  by \<open>repository.ErrDocumentNotFound\<close> when the service tests for
  \<open>mongo.ErrNoDocuments\<close>, so all three operations return
  \<open>repository.ErrDocumentNotFound\<close> and all three handlers answer 500. The lookup is
  the only call made: nothing is written or deleted.
\<close>

theorem unknown_id_returns_ErrDocumentNotFound:
  "files_coll empty_world id1 = None \<and>
   fst (FileService_GetFileMetadata id1 empty_world) = Inl repository_ErrDocumentNotFound \<and>
   fst (FileService_DeleteFile repo id1 empty_world) = Some repository_ErrDocumentNotFound \<and>
   fst (FileService_ReplaceFile repo id1 photo_png empty_world) =
     Inl repository_ErrDocumentNotFound \<and>
   trace (snd (FileService_DeleteFile repo id1 empty_world)) =
     [(Call_FindOne, id1, Some mongo_ErrNoDocuments)] \<and>
   trace (snd (FileService_ReplaceFile repo id1 photo_png empty_world)) =
     [(Call_FindOne, id1, Some mongo_ErrNoDocuments)] \<and>
   fst (FileHandler_GetFileMetadata (\<lambda>s. True) id1 empty_world) =
     (500, ErrorResponse ''Failed to get file metadata'') \<and>
   fst (FileHandler_DeleteFile (\<lambda>s. True) repo id1 empty_world) =
     (500, ErrorResponse ''Failed to delete file'') \<and>
   fst (FileHandler_ReplaceFile (\<lambda>s. True) sniff_png_jpeg repo id1 (Some photo_png) empty_world) =
     (500, ErrorResponse ''Failed to replace file'')"
  by code_simp

section \<open>The object key of a stored file\<close>

text \<open>
  Claim C2: the object key that Delete and Replace compute from the stored record is to
  equal the key Upload wrote the blob under. The upload of \<open>photo.png\<close> writes the
  blob under the identifier followed by \<open>.png\<close> and stores the name without its
  extension, \<open>photo\<close>. Delete takes the extension of that stored name, which is empty,
  and asks the store to remove the bare identifier: the record goes, the blob under the
  \<open>.png\<close> key stays. Replace asks for the removal of the same bare identifier.
\<close>

theorem delete_key_differs_from_upload_key:
  "Ext (Filename photo_png) = ''.png'' \<and>
   objects uploaded_world (id1 @ ''.png'') = Some (png_bytes, ''image/png'') \<and>
   files_coll uploaded_world id1 = Some stored_photo \<and>
   id1 @ Ext (OriginalName stored_photo) = id1 \<and>
   new_calls uploaded_world (snd (FileService_DeleteFile repo id1 uploaded_world)) =
     [(Call_FindOne, id1, None), (Call_RemoveObject, id1, None), (Call_DeleteOne, id1, None)] \<and>
   fst (FileService_DeleteFile repo id1 uploaded_world) = None \<and>
   files_coll (snd (FileService_DeleteFile repo id1 uploaded_world)) id1 = None \<and>
   objects (snd (FileService_DeleteFile repo id1 uploaded_world)) (id1 @ ''.png'') =
     Some (png_bytes, ''image/png'') \<and>
   take 2 (new_calls uploaded_world
             (snd (FileService_ReplaceFile repo id1 photo_png uploaded_world))) =
     [(Call_FindOne, id1, None), (Call_RemoveObject, id1, None)]"
  by code_simp

section \<open>The staging file\<close>

text \<open>
  Claim C8: every exit of Upload and of Replace is to remove the staging file, the exit on
  a failed copy included. When the copy fails, \<open>saveUploadedFile\<close> has created the
  file, and Upload and Replace return before the deferred \<open>os.Remove\<close> is registered:
  the file is still there and no removal is even attempted.
\<close>

theorem staged_file_survives_copy_failure:
  "tmpfs copy_fails_world (''/tmp/'' @ id1 @ ''.png'') = None \<and>
   fst (FileService_UploadFile repo photo_png copy_fails_world) =
     Inl (External (other_error ''no space left on device'')) \<and>
   tmpfs (snd (FileService_UploadFile repo photo_png copy_fails_world))
     (''/tmp/'' @ id1 @ ''.png'') = Some [] \<and>
   filter (\<lambda>c. fst c = Call_Remove)
     (trace (snd (FileService_UploadFile repo photo_png copy_fails_world))) = [] \<and>
   tmpfs replace_copy_fails_world (''/tmp/'' @ id1 @ ''.png'') = None \<and>
   fst (FileService_ReplaceFile repo id1 photo_png replace_copy_fails_world) =
     Inl (External (other_error ''no space left on device'')) \<and>
   tmpfs (snd (FileService_ReplaceFile repo id1 photo_png replace_copy_fails_world))
     (''/tmp/'' @ id1 @ ''.png'') = Some [] \<and>
   filter (\<lambda>c. fst c = Call_Remove)
     (trace (snd (FileService_ReplaceFile repo id1 photo_png replace_copy_fails_world))) = []"
  by code_simp

section \<open>Upload: failure of the blob write\<close>

text \<open>
  Claim C6: when the blob write of an Upload fails, Upload returns the storage error (the
  client's error wrapped as \<open>upload error\<close>), never calls the metadata insert, and leaves
  the collection as it was.
\<close>

theorem UploadFile_put_failure:
  assumes run: "FileService_UploadFile m file w = (r, w')"
    and put: "(Call_FPutObject, objectName, Some e) \<in> set (new_calls w w')"
  shows "r = Inl (Errorf ''upload error: %w'' (External e)) \<and>
         filter (\<lambda>c. fst c = Call_InsertOne) (new_calls w w') = [] \<and>
         files_coll w' = files_coll w"
  using assms
  by (auto simp: FileService_UploadFile_def new_calls_def Let_def
        split: prod.splits option.splits sum.splits if_splits dest!: effects)

theorem UploadFile_put_failure_witness:
  "(Call_FPutObject, id1 @ ''.png'', Some (other_error ''connection refused''))
     \<in> set (new_calls put_fails_world (snd (FileService_UploadFile repo photo_png put_fails_world))) \<and>
   fst (FileService_UploadFile repo photo_png put_fails_world) =
     Inl (Errorf ''upload error: %w'' (External (other_error ''connection refused''))) \<and>
   filter (\<lambda>c. fst c = Call_InsertOne)
     (new_calls put_fails_world (snd (FileService_UploadFile repo photo_png put_fails_world))) = [] \<and>
   files_coll (snd (FileService_UploadFile repo photo_png put_fails_world)) =
     files_coll put_fails_world"
proof -
  have run: "FileService_UploadFile repo photo_png put_fails_world =
      (fst (FileService_UploadFile repo photo_png put_fails_world),
       snd (FileService_UploadFile repo photo_png put_fails_world))"
    by simp
  have put: "(Call_FPutObject, id1 @ ''.png'', Some (other_error ''connection refused''))
     \<in> set (new_calls put_fails_world (snd (FileService_UploadFile repo photo_png put_fails_world)))"
    by code_simp
  from UploadFile_put_failure [OF run put] put show ?thesis
    by blast
qed

section \<open>Upload: failure of the metadata insert\<close>

text \<open>
  Claim C5: when the blob put of an Upload succeeds and the metadata insert then fails
  with \<open>e\<close>, Upload returns \<open>e\<close> and the log of the operation holds exactly one
  \<open>RemoveObject\<close>, for the object just written, whatever that call's outcome \<open>d\<close> is.
\<close>

theorem UploadFile_compensates_once:
  assumes run: "FileService_UploadFile m file w = (r, w')"
    and put: "(Call_FPutObject, objectName, None) \<in> set (new_calls w w')"
    and ins: "(Call_InsertOne, fileID, Some e) \<in> set (new_calls w w')"
  shows "r = Inl (External e) \<and>
         (\<exists>d. filter (\<lambda>c. fst c = Call_RemoveObject) (new_calls w w') =
                 [(Call_RemoveObject, objectName, d)])"
  using assms
  by (auto simp: FileService_UploadFile_def new_calls_def Let_def
        split: prod.splits option.splits sum.splits if_splits dest!: effects)

theorem UploadFile_compensates_once_witness:
  "(Call_FPutObject, id1 @ ''.png'', None)
     \<in> set (new_calls insert_fails_world
               (snd (FileService_UploadFile repo photo_png insert_fails_world))) \<and>
   (Call_InsertOne, id1, Some (other_error ''server selection timeout''))
     \<in> set (new_calls insert_fails_world
               (snd (FileService_UploadFile repo photo_png insert_fails_world))) \<and>
   fst (FileService_UploadFile repo photo_png insert_fails_world) =
     Inl (External (other_error ''server selection timeout'')) \<and>
   (\<exists>d. filter (\<lambda>c. fst c = Call_RemoveObject)
          (new_calls insert_fails_world
             (snd (FileService_UploadFile repo photo_png insert_fails_world))) =
        [(Call_RemoveObject, id1 @ ''.png'', d)])"
proof -
  have run: "FileService_UploadFile repo photo_png insert_fails_world =
      (fst (FileService_UploadFile repo photo_png insert_fails_world),
       snd (FileService_UploadFile repo photo_png insert_fails_world))"
    by simp
  have put: "(Call_FPutObject, id1 @ ''.png'', None)
     \<in> set (new_calls insert_fails_world
               (snd (FileService_UploadFile repo photo_png insert_fails_world)))"
    by code_simp
  have ins: "(Call_InsertOne, id1, Some (other_error ''server selection timeout''))
     \<in> set (new_calls insert_fails_world
               (snd (FileService_UploadFile repo photo_png insert_fails_world)))"
    by code_simp
  from UploadFile_compensates_once [OF run put ins] put ins show ?thesis
    by blast
qed

section \<open>Delete: the blob store's answer\<close>

text \<open>
  Claim C3, as stated: when the record exists and the store answers the delete of the
  blob with not-found, Delete is to succeed and remove the record. It does not: Delete
  returns \<open>repository.ErrFileNotFound\<close> and the record is still there.
\<close>

theorem DeleteFile_blob_not_found_fails:
  "files_coll blob_gone_world id1 = Some stored_photo \<and>
   objects blob_gone_world (id1 @ Ext (OriginalName stored_photo)) = None \<and>
   fst (FileService_DeleteFile repo id1 blob_gone_world) = Some repository_ErrFileNotFound \<and>
   files_coll (snd (FileService_DeleteFile repo id1 blob_gone_world)) id1 = Some stored_photo"
  by code_simp

text \<open>
  Claim C3, amended: if the store answers the delete of the blob with any error, not-found
  included, Delete fails with it (\<open>repository.ErrFileNotFound\<close> for the code
  \<open>NoSuchKey\<close>, the wrapped \<open>delete error\<close> otherwise), does not call the metadata delete,
  and leaves the collection as it was. Only if the store reports success does Delete go
  on to delete the record, and then its result is that of the metadata delete.
\<close>

theorem DeleteFile_blob_delete_outcome:
  assumes run: "FileService_DeleteFile m fileID w = (r, w')"
    and rem: "(Call_RemoveObject, objectName, d) \<in> set (new_calls w w')"
  shows "case d of
           Some e \<Rightarrow>
             r = Some (if e = minio_ErrorResponse ''NoSuchKey'' then repository_ErrFileNotFound
                       else Errorf ''delete error: %w'' (External e)) \<and>
             files_coll w' = files_coll w \<and>
             filter (\<lambda>c. fst c = Call_DeleteOne) (new_calls w w') = []
         | None \<Rightarrow>
             (\<exists>k. (Call_DeleteOne, fileID, k) \<in> set (new_calls w w') \<and>
                  r = map_option External k \<and>
                  (k = None \<longrightarrow> files_coll w' fileID = None))"
  using assms
  by (auto simp: FileService_DeleteFile_def new_calls_def Let_def
        split: prod.splits option.splits sum.splits if_splits dest!: effects)

theorem DeleteFile_blob_delete_outcome_witness:
  "(Call_RemoveObject, id1, Some (minio_ErrorResponse ''NoSuchKey''))
     \<in> set (new_calls blob_gone_world (snd (FileService_DeleteFile repo id1 blob_gone_world))) \<and>
   fst (FileService_DeleteFile repo id1 blob_gone_world) = Some repository_ErrFileNotFound \<and>
   files_coll (snd (FileService_DeleteFile repo id1 blob_gone_world)) =
     files_coll blob_gone_world \<and>
   filter (\<lambda>c. fst c = Call_DeleteOne)
     (new_calls blob_gone_world (snd (FileService_DeleteFile repo id1 blob_gone_world))) = []"
proof -
  have run: "FileService_DeleteFile repo id1 blob_gone_world =
      (fst (FileService_DeleteFile repo id1 blob_gone_world),
       snd (FileService_DeleteFile repo id1 blob_gone_world))"
    by simp
  have rem: "(Call_RemoveObject, id1, Some (minio_ErrorResponse ''NoSuchKey''))
     \<in> set (new_calls blob_gone_world (snd (FileService_DeleteFile repo id1 blob_gone_world)))"
    by code_simp
  from DeleteFile_blob_delete_outcome [OF run rem] rem show ?thesis
    by simp
qed

section \<open>Replace: the delete of the old blob\<close>




section \<open>The validation gate of Upload\<close>

text \<open>
  Claim C4, as stated: a part whose name ends in \<open>.jpg\<close> and whose bytes sniff as
  \<open>image/png\<close> is to be rejected. It is admitted: the extension is in its list, the
  sniffed type is in its list, and the blob is stored under the \<open>.jpg\<close> key.
\<close>

theorem png_named_jpg_is_admitted:
  "UploadFile_allowedExtensions (ToLower_ascii (Ext (Filename png_named_jpg))) \<and>
   fst (detectContentType sniff_png_jpeg png_named_jpg empty_world) = Inr ''image/png'' \<and>
   fst (FileHandler_UploadFile ToLower_ascii sniff_png_jpeg repo (Some png_named_jpg) empty_world) =
     (200, SuccessResponse
             ''http://localhost:9000/user-uploads/6f1c2a9e-0b7d-4c3a-9e55-1d2f3a4b5c6d.jpg'') \<and>
   objects (snd (FileHandler_UploadFile ToLower_ascii sniff_png_jpeg repo (Some png_named_jpg) empty_world))
     (id1 @ ''.jpg'') = Some (png_bytes, ''image/jpeg'')"
  by code_simp

text \<open>
  Claim C4, amended: the gate admits an upload (answers anything but 400) exactly when
  the lower-cased extension is in the extension list and the sniffed type is in the type
  list, two checks that do not look at each other; it answers
  \<open>Unsupported file type\<close> exactly when the extension passed and the sniffed type is
  outside the type list; and every 400 leaves bucket, collection and local files as
  they were.
\<close>

theorem UploadFile_gate:
  assumes run: "FileHandler_UploadFile ToLower sniff m (Some file) w = (resp, w')"
  shows "(fst resp \<noteq> 400) =
           (UploadFile_allowedExtensions (ToLower (Ext (Filename file))) \<and>
            (case fst (detectContentType sniff file w) of
               Inl err \<Rightarrow> False | Inr contentType \<Rightarrow> UploadFile_allowedTypes contentType)) \<and>
         (resp = (400, ErrorResponse ''Unsupported file type'')) =
           (UploadFile_allowedExtensions (ToLower (Ext (Filename file))) \<and>
            (case fst (detectContentType sniff file w) of
               Inl err \<Rightarrow> False | Inr contentType \<Rightarrow> \<not> UploadFile_allowedTypes contentType)) \<and>
         (fst resp = 400 \<longrightarrow>
            objects w' = objects w \<and> files_coll w' = files_coll w \<and> tmpfs w' = tmpfs w)"
  using assms
  by (auto simp: FileHandler_UploadFile_def Let_def
        split: prod.splits sum.splits if_splits dest!: detectContentType_effect)

theorem UploadFile_gate_witness:
  "UploadFile_allowedExtensions (ToLower_ascii (Ext (Filename png_named_jpg))) \<and>
   fst (detectContentType sniff_png_jpeg png_named_jpg empty_world) = Inr ''image/png'' \<and>
   UploadFile_allowedTypes ''image/png'' \<and>
   fst (fst (FileHandler_UploadFile ToLower_ascii sniff_png_jpeg repo (Some png_named_jpg) empty_world)) \<noteq> 400"
proof -
  have run: "FileHandler_UploadFile ToLower_ascii sniff_png_jpeg repo (Some png_named_jpg) empty_world =
      (fst (FileHandler_UploadFile ToLower_ascii sniff_png_jpeg repo (Some png_named_jpg) empty_world),
       snd (FileHandler_UploadFile ToLower_ascii sniff_png_jpeg repo (Some png_named_jpg) empty_world))"
    by simp
  have ext: "UploadFile_allowedExtensions (ToLower_ascii (Ext (Filename png_named_jpg)))"
    by code_simp
  have det: "fst (detectContentType sniff_png_jpeg png_named_jpg empty_world) = Inr ''image/png''"
    by code_simp
  have ty: "UploadFile_allowedTypes ''image/png''"
    by code_simp
  from UploadFile_gate [OF run] ext det ty show ?thesis
    by simp
qed

section \<open>The content type of the stored record\<close>

text \<open>
  Claim C9, as stated: the stored content type is to be one that validation has found to
  match the sniffed type. A part declared as \<open>text/html\<close> whose bytes sniff as
  \<open>image/png\<close> is admitted, and the record is stored with \<open>text/html\<close>.
\<close>

theorem declared_type_stored_unchecked:
  "fst (detectContentType sniff_png_jpeg png_declared_html empty_world) = Inr ''image/png'' \<and>
   fst (FileHandler_UploadFile ToLower_ascii sniff_png_jpeg repo (Some png_declared_html) empty_world) =
     (200, SuccessResponse
             ''http://localhost:9000/user-uploads/6f1c2a9e-0b7d-4c3a-9e55-1d2f3a4b5c6d.png'') \<and>
   map_option ContentType
     (files_coll (snd (FileHandler_UploadFile ToLower_ascii sniff_png_jpeg repo (Some png_declared_html)
                         empty_world)) id1) = Some ''text/html''"
  by code_simp

text \<open>
  Claim C9, amended: for every upload answered with 200, the record stored under the new
  identifier carries the content type the client declared in the part's
  \<open>Content-Type\<close> header, as it came; validation has checked the sniffed type against
  the type list and nothing else.
\<close>

theorem stored_ContentType_is_declared:
  assumes run: "FileHandler_UploadFile ToLower sniff m (Some file) w = ((200, b), w')"
  shows "map_option ContentType (files_coll w' (uuids w (uuid_next w))) =
           Some (Header_Content_Type file) \<and>
         (case fst (detectContentType sniff file w) of
            Inl err \<Rightarrow> False | Inr contentType \<Rightarrow> UploadFile_allowedTypes contentType)"
  using assms
  by (auto simp: FileHandler_UploadFile_def Let_def
        split: prod.splits sum.splits if_splits
        dest!: detectContentType_effect UploadFile_stored_record)

theorem stored_ContentType_is_declared_witness:
  "fst (FileHandler_UploadFile ToLower_ascii sniff_png_jpeg repo (Some png_declared_html) empty_world) =
     (200, SuccessResponse
             ''http://localhost:9000/user-uploads/6f1c2a9e-0b7d-4c3a-9e55-1d2f3a4b5c6d.png'') \<and>
   map_option ContentType
     (files_coll (snd (FileHandler_UploadFile ToLower_ascii sniff_png_jpeg repo (Some png_declared_html)
                         empty_world))
        (uuids empty_world (uuid_next empty_world))) =
     Some (Header_Content_Type png_declared_html)"
proof -
  have ok: "fst (FileHandler_UploadFile ToLower_ascii sniff_png_jpeg repo (Some png_declared_html) empty_world) =
     (200, SuccessResponse
             ''http://localhost:9000/user-uploads/6f1c2a9e-0b7d-4c3a-9e55-1d2f3a4b5c6d.png'')"
    by code_simp
  have run: "FileHandler_UploadFile ToLower_ascii sniff_png_jpeg repo (Some png_declared_html) empty_world =
      ((200, SuccessResponse
               ''http://localhost:9000/user-uploads/6f1c2a9e-0b7d-4c3a-9e55-1d2f3a4b5c6d.png''),
       snd (FileHandler_UploadFile ToLower_ascii sniff_png_jpeg repo (Some png_declared_html) empty_world))"
    using ok by (simp add: prod_eq_iff)
  from stored_ContentType_is_declared [OF run] ok show ?thesis
    by blast
qed

section \<open>The authentication middleware\<close>

text \<open>
  Claim C10: the middleware lets a request through exactly when its \<open>Authorization\<close>
  header equals \<open>API_KEY\<close> as strings. So when \<open>API_KEY\<close> is unset or empty, a request
  without the header, or with an empty one, passes and the handler of the route runs.
\<close>

theorem apiKeyAuth_empty_secret:
  "(apiKeyAuth environ headers = Next) =
     (GetHeader headers ''Authorization'' = Getenv environ ''API_KEY'') \<and>
   ((environ ''API_KEY'' = None \<or> environ ''API_KEY'' = Some []) \<and>
    (headers ''Authorization'' = None \<or> headers ''Authorization'' = Some []) \<longrightarrow>
      apiKeyAuth environ headers = Next \<and> api_v1 environ headers handler w = handler w)"
  by (auto simp: apiKeyAuth_def api_v1_def GetHeader_def Getenv_def Let_def
        split: option.splits)

theorem apiKeyAuth_empty_secret_witness:
  "(Map.empty :: string \<rightharpoonup> string) ''API_KEY'' = None \<and>
   (Map.empty :: string \<rightharpoonup> string) ''Authorization'' = None \<and>
   apiKeyAuth Map.empty Map.empty = Next \<and>
   api_v1 Map.empty Map.empty (FileHandler_GetFileMetadata (\<lambda>s. True) id1) empty_world =
     FileHandler_GetFileMetadata (\<lambda>s. True) id1 empty_world"
  using apiKeyAuth_empty_secret
    [of Map.empty Map.empty "FileHandler_GetFileMetadata (\<lambda>s. True) id1" empty_world]
  by simp

end
